theory Spec2Isabelle
  imports Main "HOL-Library.Sublist"
begin

section \<open>Data model (types.ts)\<close>

text \<open>
  The interview orchestrator of Foresight is the React component \<^verbatim>\<open>InterviewScreen\<close>
  together with the service wrapper \<^verbatim>\<open>geminiService.ts\<close>. JavaScript strings are
  modelled as \<^typ>\<open>string\<close>; optional fields (\<^verbatim>\<open>theme?\<close>, \<^verbatim>\<open>question?\<close>, ...) as
  \<^typ>\<open>'a option\<close>, with \<^const>\<open>None\<close> for \<^verbatim>\<open>undefined\<close>.
\<close>

datatype LanguageCode = en_US | en_IN | hi_IN

fun LANGUAGE_OPTIONS :: "LanguageCode \<Rightarrow> string" where
  "LANGUAGE_OPTIONS en_US = ''English (US)''"
| "LANGUAGE_OPTIONS en_IN = ''English (India)''"
| "LANGUAGE_OPTIONS hi_IN = ''Hindi (India)''"

record KeyQuestionnaireItem =
  theme :: string
  questions :: "string list"

text \<open>
  Of \<^verbatim>\<open>ResearchPlan\<close> the interview reads \<^verbatim>\<open>keyQuestionnaire\<close> only; the other fields
  (methods, probes, recruitment criteria, ...) are never consulted by the code modelled here.
\<close>

record ResearchPlan =
  keyQuestionnaire :: "KeyQuestionnaireItem list"

datatype Speaker = AI | User

text \<open>
  \<^verbatim>\<open>InterviewTranscriptItem\<close>. Its optional \<^verbatim>\<open>text\<close> field is written by no code of the
  interview and is left out.
\<close>

record InterviewTranscriptItem =
  speaker :: Speaker
  turn_theme :: "string option"
  question :: "string option"
  answer :: "string option"
  isProbing :: "bool option"

record AIQuestionResponse =
  nextQuestionText :: string
  q_theme :: string
  q_isProbing :: bool
  isEndOfInterview :: bool

text \<open>
  \<^verbatim>\<open>InterviewStage\<close>; the component starts in \<^verbatim>\<open>'initial'\<close>, which the declared union
  type omits.
\<close>

datatype InterviewStage = initial | processing | asking | listening | concluding | finished

datatype VoiceInputStage = idle | recording | transcribing | error | readyToSubmit

section \<open>Strings\<close>

text \<open>
  \<^verbatim>\<open>String.prototype.trim\<close> removes white space and line terminators at both ends. Among
  the code units below 256 these are tab, LF, VT, FF, CR, space and the no-break space.
\<close>

definition isWhiteSpace :: "char \<Rightarrow> bool" where
  "isWhiteSpace c = (c \<in> set [CHR 0x09, CHR 0x0A, CHR 0x0B, CHR 0x0C, CHR 0x0D, CHR 0x20, CHR 0xA0])"

definition trim :: "string \<Rightarrow> string" where
  "trim s = rev (dropWhile isWhiteSpace (rev (dropWhile isWhiteSpace s)))"

text \<open>\<^verbatim>\<open>s.includes(p)\<close>: \<open>p\<close> occurs in \<open>s\<close> as a contiguous run.\<close>

fun includes_str :: "string \<Rightarrow> string \<Rightarrow> bool" where
  "includes_str [] p = (p = [])"
| "includes_str (c # cs) p = (prefix p (c # cs) \<or> includes_str cs p)"

section \<open>The question generation service (geminiService.ts)\<close>

subsection \<open>Which planned question comes next\<close>

text \<open>
  \<^verbatim>\<open>interviewTranscript.filter(item => item.speaker === 'AI' && item.question).map(item => item.question)\<close>:
  the filter keeps an item when its \<^verbatim>\<open>question\<close> is truthy, that is, present and not the
  empty string.
\<close>

fun askedQuestionsInTranscript :: "InterviewTranscriptItem list \<Rightarrow> string list" where
  "askedQuestionsInTranscript [] = []"
| "askedQuestionsInTranscript (item # rest) =
     (case question item of
        Some q \<Rightarrow> if speaker item = AI \<and> q \<noteq> [] then q # askedQuestionsInTranscript rest
                  else askedQuestionsInTranscript rest
      | None \<Rightarrow> askedQuestionsInTranscript rest)"

text \<open>
  The inner loop \<^verbatim>\<open>for (const question of themeItem.questions)\<close> with its \<^verbatim>\<open>break\<close>, and the
  outer loop over \<^verbatim>\<open>researchPlan.keyQuestionnaire\<close>. The object
  \<^verbatim>\<open>{ theme, question }\<close> is the pair \<open>(theme, question)\<close>; \<^verbatim>\<open>null\<close> is \<^const>\<open>None\<close>.
\<close>

fun scanQuestions :: "string list \<Rightarrow> string list \<Rightarrow> string option" where
  "scanQuestions asked [] = None"
| "scanQuestions asked (q # qs) = (if q \<notin> set asked then Some q else scanQuestions asked qs)"

fun scanThemes :: "string list \<Rightarrow> KeyQuestionnaireItem list \<Rightarrow> (string \<times> string) option" where
  "scanThemes asked [] = None"
| "scanThemes asked (themeItem # rest) =
     (case scanQuestions asked (questions themeItem) of
        Some q \<Rightarrow> Some (theme themeItem, q)
      | None \<Rightarrow> scanThemes asked rest)"

definition nextPlannedQuestion ::
  "ResearchPlan \<Rightarrow> InterviewTranscriptItem list \<Rightarrow> (string \<times> string) option" where
  "nextPlannedQuestion researchPlan interviewTranscript =
     scanThemes (askedQuestionsInTranscript interviewTranscript) (keyQuestionnaire researchPlan)"

subsection \<open>Validation and repair of the candidate\<close>

definition Conclusion :: string where
  "Conclusion = ''Conclusion''"

definition genericPhrase :: string where
  "genericPhrase = ''Is there anything else you'd like to share''"

definition forcedClosingRemark :: string where
  "forcedClosingRemark = ''Thank you for your time today. That's all the questions I have. Is there anything else you'd like to add or share before we finish?''"

definition shortClosingRemark :: string where
  "shortClosingRemark = ''Thank you for your time today. That's all the questions I have.''"

definition fillerQuestion :: string where
  "fillerQuestion = ''I'm ready for your response.''"

text \<open>The response used when the model's text is not parseable JSON (\<^verbatim>\<open>parsed\<close> is null).\<close>

definition unparsedFallback :: "LanguageCode \<Rightarrow> (string \<times> string) option \<Rightarrow> AIQuestionResponse" where
  "unparsedFallback selectedLanguage npq =
     \<lparr> nextQuestionText = (case npq of
          Some (t, q) \<Rightarrow> q
        | None \<Rightarrow> ''Thank you for your responses. Is there anything else you'd like to share in ''
                    @ LANGUAGE_OPTIONS selectedLanguage @ ''?''),
       q_theme = (case npq of Some (t, q) \<Rightarrow> t | None \<Rightarrow> ''General Feedback''),
       q_isProbing = False,
       isEndOfInterview = False \<rparr>"

text \<open>
  The block between \<^verbatim>\<open>CRUCIAL LOGIC FOR INTERVIEW CONCLUSION\<close> and \<^verbatim>\<open>END CRUCIAL LOGIC\<close>:
  the three assignments of the exhausted-plan branch, the \<^verbatim>\<open>else if\<close> branch with its
  ternaries on \<^verbatim>\<open>nextPlannedQuestion\<close>, then the final check against the empty text.
\<close>

definition concludeOrRepair :: "(string \<times> string) option \<Rightarrow> AIQuestionResponse \<Rightarrow> AIQuestionResponse" where
  "concludeOrRepair npq finalResponse =
     (if npq = None then
        finalResponse
          \<lparr> isEndOfInterview := True,
            nextQuestionText :=
              (if nextQuestionText finalResponse = [] \<or> includes_str (nextQuestionText finalResponse) genericPhrase
               then forcedClosingRemark else nextQuestionText finalResponse),
            q_theme := Conclusion,
            q_isProbing := False \<rparr>
      else if isEndOfInterview finalResponse \<and> nextQuestionText finalResponse = [] then
        finalResponse
          \<lparr> nextQuestionText := (case npq of Some (t, q) \<Rightarrow> q | None \<Rightarrow> shortClosingRemark),
            q_theme := (case npq of Some (t, q) \<Rightarrow> t | None \<Rightarrow> Conclusion),
            q_isProbing := False,
            isEndOfInterview := (npq = None) \<rparr>
      else finalResponse)"

definition neverEmpty :: "AIQuestionResponse \<Rightarrow> AIQuestionResponse" where
  "neverEmpty finalResponse =
     (if nextQuestionText finalResponse = [] then finalResponse \<lparr> nextQuestionText := fillerQuestion \<rparr>
      else finalResponse)"

definition validateResponse ::
  "LanguageCode \<Rightarrow> (string \<times> string) option \<Rightarrow> AIQuestionResponse option \<Rightarrow> AIQuestionResponse" where
  "validateResponse selectedLanguage npq parsed =
     neverEmpty (concludeOrRepair npq
       (case parsed of Some p \<Rightarrow> p | None \<Rightarrow> unparsedFallback selectedLanguage npq))"

subsection \<open>The call as a whole\<close>

text \<open>
  What the remote side does is an input of the model. \<^verbatim>\<open>getAiClient()\<close> and
  \<^verbatim>\<open>getGenerativeModel\<close> run before the \<^verbatim>\<open>try\<close>, so an exception there leaves
  \<^verbatim>\<open>generateFollowUpQuestion\<close> (the promise rejects). \<^verbatim>\<open>generateContent\<close> and
  \<^verbatim>\<open>response.text()\<close> run inside the \<^verbatim>\<open>try\<close>, whose \<^verbatim>\<open>catch\<close> answers with a fallback.
  Otherwise the model's text goes through \<^verbatim>\<open>parseJsonFromText\<close>, which yields an object
  typed \<^verbatim>\<open>AIQuestionResponse\<close> or null.
\<close>

datatype generation_outcome =
    ClientError string
  | CallError string
  | ResponseText "AIQuestionResponse option"

definition callErrorFallback :: "LanguageCode \<Rightarrow> (string \<times> string) option \<Rightarrow> AIQuestionResponse" where
  "callErrorFallback selectedLanguage npq =
     \<lparr> nextQuestionText = (case npq of
          Some (t, q) \<Rightarrow> q
        | None \<Rightarrow> ''Apologies, I encountered an issue. Let's try this: Is there anything else you'd like to share in ''
                    @ LANGUAGE_OPTIONS selectedLanguage @ ''?''),
       q_theme = (case npq of Some (t, q) \<Rightarrow> t | None \<Rightarrow> Conclusion),
       q_isProbing = False,
       isEndOfInterview = (npq = None) \<rparr>"

text \<open>
  The result is \<open>Inl message\<close> when the promise rejects and \<open>Inr r\<close> when it resolves to
  \<open>r\<close>, of the declared type \<^verbatim>\<open>AIQuestionResponse | null\<close>.
\<close>

definition generateFollowUpQuestion ::
  "ResearchPlan \<Rightarrow> InterviewTranscriptItem list \<Rightarrow> LanguageCode \<Rightarrow> generation_outcome
     \<Rightarrow> string + AIQuestionResponse option" where
  "generateFollowUpQuestion researchPlan interviewTranscript selectedLanguage outcome =
     (let npq = nextPlannedQuestion researchPlan interviewTranscript in
      case outcome of
        ClientError msg \<Rightarrow> Inl msg
      | CallError msg \<Rightarrow> Inr (Some (callErrorFallback selectedLanguage npq))
      | ResponseText parsed \<Rightarrow> Inr (Some (validateResponse selectedLanguage npq parsed)))"

section \<open>The transcription service (geminiService.ts)\<close>

text \<open>
  The body of a successful reply of the transcription backend, and what the backend does
  with a request: \<^verbatim>\<open>fetch\<close> or \<^verbatim>\<open>response.json()\<close> throws; the reply is not
  \<^verbatim>\<open>ok\<close> (with its error text and status text); or the reply is \<^verbatim>\<open>ok\<close> with a JSON body,
  \<^const>\<open>None\<close> standing for a falsy body such as \<^verbatim>\<open>null\<close>.
\<close>

record stt_result =
  transcript_field :: "string option"

datatype stt_backend =
    FetchRejected string
  | NotOk string string
  | OkJson "stt_result option"

text \<open>A \<^verbatim>\<open>Blob\<close> is modelled by its size in bytes; \<^const>\<open>None\<close> is a missing blob.\<close>

definition transcribeAudio :: "nat option \<Rightarrow> LanguageCode \<Rightarrow> stt_backend \<Rightarrow> string + string" where
  "transcribeAudio audioBlob lang backend =
     (case audioBlob of
        None \<Rightarrow> Inl ''transcribeAudio: No audio blob provided for transcription.''
      | Some size_bytes \<Rightarrow>
         (case backend of
            FetchRejected msg \<Rightarrow> Inl msg
          | NotOk errorData statusText \<Rightarrow>
              Inl (''Failed to transcribe audio: '' @ (if errorData \<noteq> [] then errorData else statusText))
          | OkJson result \<Rightarrow>
              (case result of
                 None \<Rightarrow> Inr []
               | Some body \<Rightarrow>
                  (case transcript_field body of
                     None \<Rightarrow> Inr []
                   | Some t \<Rightarrow> if t = [] then Inr [] else Inr t))))"

section \<open>The interview screen (InterviewScreen.tsx)\<close>

subsection \<open>State\<close>

text \<open>
  A callback created in one render keeps the state values of that render. Three callbacks
  outlive their render, and the values they captured are part of the state: the debounce
  timer of \<^verbatim>\<open>handleSubmitResponse\<close>, the running \<^verbatim>\<open>speechOperation\<close> and the
  \<^verbatim>\<open>onend\<close> handler of the live recognition.
\<close>

record submit_closure =
  c_userResponse :: string
  c_question :: "AIQuestionResponse option"
  c_transcript :: "InterviewTranscriptItem list"
  c_isFetchingQuestion :: bool

datatype speech_phase = Synthesizing | Playing | Paused

record speech_operation =
  sp_text :: string
  sp_theme :: string
  sp_phase :: speech_phase

record recognition_closure =
  r_isListening :: bool
  r_userResponse :: string

datatype recorder_state = inactive | rec_recording | rec_stopping

text \<open>
  The \<^verbatim>\<open>useState\<close> cells and \<^verbatim>\<open>useRef\<close> cells of the component, then what is pending
  outside it (\<open>pendingRequest\<close>: the awaited \<^verbatim>\<open>generateFollowUpQuestion\<close> call with the
  transcript it was given; \<open>pendingTranscription\<close>: the awaited \<^verbatim>\<open>transcribeAudio\<close> call),
  then the calls made to the parent: \<^verbatim>\<open>onError\<close>, \<^verbatim>\<open>onInterviewComplete\<close>,
  \<^verbatim>\<open>onCancel\<close>. The character-by-character reveal of the question is not modelled;
  \<open>displayedQuestionText\<close> holds what the code sets outside the interval.
\<close>

record screen =
  currentAIQuestion :: "AIQuestionResponse option"
  displayedQuestionText :: string
  currentUserResponse :: string
  transcript :: "InterviewTranscriptItem list"
  interviewStage :: InterviewStage
  isFetchingQuestion :: bool
  isSpeaking :: bool
  isListening :: bool
  sttError :: "string option"
  voiceInputStage :: VoiceInputStage
  audioRef :: bool
  mediaRecorder :: recorder_state
  speechRecognition :: "recognition_closure option"
  speakingPromise :: "speech_operation option"
  lastSpokenQuestionText :: "string option"
  submitDebounce :: "submit_closure option"
  pendingRequest :: "InterviewTranscriptItem list option"
  pendingTranscription :: "nat option"
  errors :: "string list"
  completed :: "InterviewTranscriptItem list list"
  cancelled :: bool

definition pristine :: screen where
  "pristine =
     \<lparr> currentAIQuestion = None, displayedQuestionText = [], currentUserResponse = [],
       transcript = [], interviewStage = initial, isFetchingQuestion = False,
       isSpeaking = False, isListening = False, sttError = None, voiceInputStage = idle,
       audioRef = False, mediaRecorder = inactive, speechRecognition = None,
       speakingPromise = None, lastSpokenQuestionText = None, submitDebounce = None,
       pendingRequest = None, pendingTranscription = None, errors = [], completed = [],
       cancelled = False \<rparr>"

subsection \<open>Speech output\<close>

definition stageAfterSpeech :: "string \<Rightarrow> InterviewStage" where
  "stageAfterSpeech th = (if th \<noteq> Conclusion then listening else concluding)"

text \<open>
  \<^verbatim>\<open>speakText\<close> up to the point where \<^verbatim>\<open>speechOperation()\<close> awaits
  \<^verbatim>\<open>synthesizeSpeech\<close>. The language is handed to the synthesis only. A forced call
  discards the audio element of an operation that is still pending and puts its own
  operation in its place.
\<close>

definition speakText :: "string \<Rightarrow> LanguageCode \<Rightarrow> string \<Rightarrow> bool \<Rightarrow> screen \<Rightarrow> screen" where
  "speakText txt lang th forceSpeak s =
     (if lastSpokenQuestionText s = Some txt \<and> \<not> forceSpeak then
        s \<lparr> displayedQuestionText := txt, isSpeaking := False,
            interviewStage := stageAfterSpeech th \<rparr>
      else if speakingPromise s \<noteq> None \<and> \<not> forceSpeak then s
      else if trim txt = [] then
        s \<lparr> audioRef := False, isSpeaking := False, displayedQuestionText := txt,
            interviewStage := stageAfterSpeech th, speakingPromise := None \<rparr>
      else
        s \<lparr> audioRef := False, lastSpokenQuestionText := Some txt, isSpeaking := True,
            displayedQuestionText := [],
            speakingPromise := Some \<lparr> sp_text = txt, sp_theme = th, sp_phase = Synthesizing \<rparr> \<rparr>)"

text \<open>
  The four ways a \<^verbatim>\<open>speechOperation\<close> goes on. \<^verbatim>\<open>synthesizeSpeech\<close> resolves, with an
  audio element or with null; \<^verbatim>\<open>synthesizeSpeech\<close> or \<^verbatim>\<open>play()\<close> rejects (the \<^verbatim>\<open>catch\<close>
  block); the audio element fires \<^verbatim>\<open>ended\<close>; it fires \<^verbatim>\<open>error\<close>.
\<close>

definition handleSpeechEnd :: "speech_operation \<Rightarrow> screen \<Rightarrow> screen" where
  "handleSpeechEnd op s =
     s \<lparr> displayedQuestionText := sp_text op, isSpeaking := False,
         interviewStage := stageAfterSpeech (sp_theme op), audioRef := False,
         speakingPromise := None \<rparr>"

definition synthesisResolved :: "bool \<Rightarrow> screen \<Rightarrow> screen" where
  "synthesisResolved hasAudio s =
     (case speakingPromise s of
        None \<Rightarrow> s
      | Some op \<Rightarrow>
          if sp_phase op \<noteq> Synthesizing then s
          else if hasAudio then
            s \<lparr> audioRef := True, speakingPromise := Some (op \<lparr> sp_phase := Playing \<rparr>) \<rparr>
          else
            s \<lparr> errors := errors s @ [''Speech generation failed.''],
                displayedQuestionText := sp_text op, isSpeaking := False,
                interviewStage := stageAfterSpeech (sp_theme op), speakingPromise := None \<rparr>)"

definition speechCaught :: "speech_phase \<Rightarrow> string \<Rightarrow> screen \<Rightarrow> screen" where
  "speechCaught phase msg s =
     (case speakingPromise s of
        None \<Rightarrow> s
      | Some op \<Rightarrow>
          if sp_phase op \<noteq> phase then s
          else
            s \<lparr> lastSpokenQuestionText :=
                  (if lastSpokenQuestionText s = Some (sp_text op) then None
                   else lastSpokenQuestionText s),
                errors := errors s @ [''Failed to get speech: '' @ msg @ ''.''],
                displayedQuestionText := sp_text op, isSpeaking := False,
                interviewStage := stageAfterSpeech (sp_theme op), speakingPromise := None \<rparr>)"

definition audioEnded :: "screen \<Rightarrow> screen" where
  "audioEnded s =
     (case speakingPromise s of
        None \<Rightarrow> s
      | Some op \<Rightarrow> if sp_phase op = Playing then handleSpeechEnd op s else s)"

definition audioErrored :: "screen \<Rightarrow> screen" where
  "audioErrored s =
     (case speakingPromise s of
        None \<Rightarrow> s
      | Some op \<Rightarrow>
          if sp_phase op = Playing
          then handleSpeechEnd op (s \<lparr> errors := errors s @ [''Audio playback error.''] \<rparr>)
          else s)"

subsection \<open>Speech capture\<close>

definition stopListening :: "screen \<Rightarrow> screen" where
  "stopListening s =
     s \<lparr> mediaRecorder := (if mediaRecorder s = rec_recording then rec_stopping else mediaRecorder s),
         isListening := False \<rparr>"

text \<open>
  \<^verbatim>\<open>startFallbackRecording\<close>: \<open>mic\<close> is the message of the exception of
  \<^verbatim>\<open>getUserMedia\<close> (or of the recorder), if it throws.
\<close>

definition startFallbackRecording :: "string option \<Rightarrow> screen \<Rightarrow> screen" where
  "startFallbackRecording mic s =
     (case mic of
        None \<Rightarrow> s \<lparr> mediaRecorder := rec_recording \<rparr>
      | Some msg \<Rightarrow>
          s \<lparr> sttError := Some (''Microphone error: '' @ msg @ ''.''), isListening := False,
              voiceInputStage := error \<rparr>)"

datatype recognition_env = Supported | Unsupported | InitThrows string

definition startListening :: "recognition_env \<Rightarrow> string option \<Rightarrow> screen \<Rightarrow> screen" where
  "startListening env mic s =
     (let s1 = s \<lparr> sttError := None, currentUserResponse := [], voiceInputStage := recording,
                   isListening := True \<rparr>;
          s2 = (if audioRef s \<and> isSpeaking s
                then s1 \<lparr> isSpeaking := False,
                          speakingPromise := map_option (\<lambda>op. op \<lparr> sp_phase := Paused \<rparr>) (speakingPromise s) \<rparr>
                else s1)
      in case env of
           Supported \<Rightarrow>
             s2 \<lparr> speechRecognition :=
                    Some \<lparr> r_isListening = isListening s, r_userResponse = currentUserResponse s \<rparr> \<rparr>
         | InitThrows msg \<Rightarrow>
             startFallbackRecording mic
               (s2 \<lparr> sttError := Some (''Speech recognition unavailable: '' @ msg
                                        @ ''. Falling back to manual transcription.''),
                     voiceInputStage := error \<rparr>)
         | Unsupported \<Rightarrow>
             startFallbackRecording mic
               (s2 \<lparr> sttError := Some ''Real-time transcription not supported. Using manual transcription.'' \<rparr>))"

definition recognitionError :: "string \<Rightarrow> string option \<Rightarrow> screen \<Rightarrow> screen" where
  "recognitionError ev mic s =
     (if speechRecognition s = None then s
      else startFallbackRecording mic
             (s \<lparr> sttError := Some (''Speech recognition error: '' @ ev
                                     @ ''. Falling back to manual transcription.''),
                  voiceInputStage := error, isListening := False, speechRecognition := None \<rparr>))"

definition recognitionEnd :: "screen \<Rightarrow> screen" where
  "recognitionEnd s =
     (case speechRecognition s of
        None \<Rightarrow> s
      | Some c \<Rightarrow>
          if r_isListening c then s
          else s \<lparr> voiceInputStage := (if trim (r_userResponse c) \<noteq> [] then readyToSubmit else idle),
                   speechRecognition := None \<rparr>)"

text \<open>
  The \<^verbatim>\<open>onstop\<close> handler of the recorder, up to its \<^verbatim>\<open>await transcribeAudio\<close>, and its
  continuation when the call returns or throws.
\<close>

definition recorderStopped :: "nat \<Rightarrow> screen \<Rightarrow> screen" where
  "recorderStopped blobSize s =
     (if mediaRecorder s \<noteq> rec_stopping then s
      else
        let s1 = s \<lparr> isListening := False, mediaRecorder := inactive \<rparr>
        in if blobSize = 0 then s1 \<lparr> sttError := Some ''No audio recorded.'', voiceInputStage := error \<rparr>
           else s1 \<lparr> voiceInputStage := transcribing, currentUserResponse := ''Transcribing audio...'',
                     pendingTranscription := Some blobSize \<rparr>)"

definition transcriptionDone :: "LanguageCode \<Rightarrow> stt_backend \<Rightarrow> screen \<Rightarrow> screen" where
  "transcriptionDone selectedLanguage backend s =
     (case pendingTranscription s of
        None \<Rightarrow> s
      | Some blobSize \<Rightarrow>
         (case transcribeAudio (Some blobSize) selectedLanguage backend of
            Inr transcribedText \<Rightarrow>
              s \<lparr> currentUserResponse := transcribedText, voiceInputStage := readyToSubmit,
                  sttError := None, pendingTranscription := None \<rparr>
          | Inl msg \<Rightarrow>
              s \<lparr> sttError := Some (''Transcription failed: '' @ msg @ ''. Please try again.''),
                  currentUserResponse := [], voiceInputStage := error,
                  pendingTranscription := None \<rparr>))"

subsection \<open>Fetching the next question\<close>

definition userTurn :: "string \<Rightarrow> string option \<Rightarrow> InterviewTranscriptItem" where
  "userTurn a th = \<lparr> speaker = User, turn_theme = th, question = None, answer = Some a, isProbing = None \<rparr>"

definition aiTurn :: "AIQuestionResponse \<Rightarrow> InterviewTranscriptItem" where
  "aiTurn r =
     \<lparr> speaker = AI, turn_theme = Some (q_theme r), question = Some (nextQuestionText r),
       answer = None, isProbing = Some (q_isProbing r) \<rparr>"

text \<open>
  \<^verbatim>\<open>updatedTranscriptWithUserAnswer\<close>: the copy of the transcript the callback captured,
  with the answer pushed if it is not blank, or the placeholder pushed if an answer was
  given and the question's theme is not \<^verbatim>\<open>"Conclusion"\<close>. \<open>userAnswer = None\<close> is
  \<^verbatim>\<open>undefined\<close>.
\<close>

definition updatedTranscriptWithUserAnswer ::
  "InterviewTranscriptItem list \<Rightarrow> string option \<Rightarrow> AIQuestionResponse option
     \<Rightarrow> InterviewTranscriptItem list" where
  "updatedTranscriptWithUserAnswer captured userAnswer currentQuestionData =
     (case userAnswer of
        None \<Rightarrow> captured
      | Some a \<Rightarrow>
          if trim a \<noteq> [] then captured @ [userTurn (trim a) (map_option q_theme currentQuestionData)]
          else if map_option q_theme currentQuestionData \<noteq> Some Conclusion
          then captured @ [userTurn ''No response provided.'' (map_option q_theme currentQuestionData)]
          else captured)"

text \<open>
  \<^verbatim>\<open>fetchAndProcessNextQuestion\<close> up to its \<^verbatim>\<open>await generateFollowUpQuestion\<close>. The
  callback reads \<^verbatim>\<open>transcript\<close> and \<^verbatim>\<open>isFetchingQuestion\<close> as captured.
\<close>

definition fetchAndProcessNextQuestion ::
  "string option \<Rightarrow> AIQuestionResponse option \<Rightarrow> InterviewTranscriptItem list \<Rightarrow> bool
     \<Rightarrow> screen \<Rightarrow> screen" where
  "fetchAndProcessNextQuestion userAnswer currentQuestionData capturedTranscript capturedFetching s =
     (if capturedFetching then s
      else
        let s1 = (stopListening (s \<lparr> isFetchingQuestion := True, interviewStage := processing \<rparr>))
                   \<lparr> voiceInputStage := idle \<rparr>;
            updated = updatedTranscriptWithUserAnswer capturedTranscript userAnswer currentQuestionData
        in s1 \<lparr> transcript := updated, currentUserResponse := [], pendingRequest := Some updated \<rparr>)"

definition emergencyConclusion :: AIQuestionResponse where
  "emergencyConclusion =
     \<lparr> nextQuestionText = ''An error occurred. We'll end the interview here. Thanks for your time.'',
       q_theme = Conclusion, q_isProbing = False, isEndOfInterview = True \<rparr>"

definition emergencyExit :: "string \<Rightarrow> screen \<Rightarrow> screen" where
  "emergencyExit msg s =
     s \<lparr> errors := errors s @ [''Failed to get next question: '' @ msg @ ''.''],
         transcript := transcript s @ [aiTurn emergencyConclusion],
         currentAIQuestion := Some emergencyConclusion,
         interviewStage := concluding,
         isFetchingQuestion := False, pendingRequest := None \<rparr>"

text \<open>The continuation: the \<^verbatim>\<open>try\<close> body after the \<^verbatim>\<open>await\<close>, \<^verbatim>\<open>catch\<close> and \<^verbatim>\<open>finally\<close>.\<close>

definition questionReceived :: "string + AIQuestionResponse option \<Rightarrow> screen \<Rightarrow> screen" where
  "questionReceived result s =
     (case result of
        Inr (Some aiResponse) \<Rightarrow>
          s \<lparr> transcript := transcript s @ [aiTurn aiResponse],
              currentAIQuestion := Some aiResponse,
              interviewStage := (if isEndOfInterview aiResponse then concluding else asking),
              isFetchingQuestion := False, pendingRequest := None \<rparr>
      | Inr None \<Rightarrow> emergencyExit ''AI returned a null or invalid response.'' s
      | Inl msg \<Rightarrow> emergencyExit msg s)"

subsection \<open>Submission and completion\<close>

definition handleSubmitResponse :: "screen \<Rightarrow> screen" where
  "handleSubmitResponse s =
     (if isSpeaking s \<or> isListening s \<or> interviewStage s = processing then s
      else if trim (currentUserResponse s) = []
              \<and> map_option q_theme (currentAIQuestion s) \<noteq> Some Conclusion
      then s \<lparr> errors := errors s @ [''Please enter a response or use voice input.''] \<rparr>
      else if submitDebounce s \<noteq> None then s
      else s \<lparr> submitDebounce :=
                 Some \<lparr> c_userResponse = currentUserResponse s, c_question = currentAIQuestion s,
                        c_transcript = transcript s, c_isFetchingQuestion = isFetchingQuestion s \<rparr> \<rparr>)"

text \<open>The timer callback, 300 ms later.\<close>

definition debounceElapsed :: "screen \<Rightarrow> screen" where
  "debounceElapsed s =
     (case submitDebounce s of
        None \<Rightarrow> s
      | Some c \<Rightarrow>
          (fetchAndProcessNextQuestion (Some (c_userResponse c)) (c_question c) (c_transcript c)
             (c_isFetchingQuestion c) s) \<lparr> submitDebounce := None \<rparr>)"

text \<open>
  \<^verbatim>\<open>handleCompleteInterview\<close>: the transcript goes to \<^verbatim>\<open>onInterviewComplete\<close>, with the
  unsent input as a last turn. \<^verbatim>\<open>currentAIQuestion?.theme || "Conclusion"\<close> replaces a
  missing or empty theme.
\<close>

definition handleCompleteInterview :: "screen \<Rightarrow> screen" where
  "handleCompleteInterview s =
     (let finalTranscript =
            (if trim (currentUserResponse s) \<noteq> []
             then transcript s @
                    [userTurn (trim (currentUserResponse s))
                       (Some (case currentAIQuestion s of
                                None \<Rightarrow> Conclusion
                              | Some q \<Rightarrow> if q_theme q \<noteq> [] then q_theme q else Conclusion))]
             else transcript s)
      in s \<lparr> completed := completed s @ [finalTranscript] \<rparr>)"

text \<open>
  The third effect: in \<^verbatim>\<open>'concluding'\<close>, with nothing being spoken and a question of theme
  \<^verbatim>\<open>"Conclusion"\<close>, a 500 ms timer sets the stage to \<^verbatim>\<open>'finished'\<close>; in \<^verbatim>\<open>'finished'\<close> a
  non-empty transcript is handed over. The timer is cleared whenever the condition is
  re-evaluated, so it fires only while the condition holds.
\<close>

definition settleElapsed :: "screen \<Rightarrow> screen" where
  "settleElapsed s =
     (if interviewStage s = concluding \<and> \<not> isSpeaking s
         \<and> map_option q_theme (currentAIQuestion s) = Some Conclusion
      then
        (if transcript s \<noteq> []
         then s \<lparr> interviewStage := finished, completed := completed s @ [transcript s] \<rparr>
         else s \<lparr> interviewStage := finished \<rparr>)
      else s)"

subsection \<open>Controls of the presentation layer\<close>

text \<open>
  The Replay button is rendered when there is a question, nothing is being spoken and the
  stage is neither \<^verbatim>\<open>'processing'\<close> nor \<^verbatim>\<open>'finished'\<close>; it calls \<^verbatim>\<open>speakText\<close> with
  \<^verbatim>\<open>forceSpeak = true\<close>.
\<close>

definition replayQuestion :: "LanguageCode \<Rightarrow> screen \<Rightarrow> screen" where
  "replayQuestion lang s =
     (case currentAIQuestion s of
        None \<Rightarrow> s
      | Some q \<Rightarrow>
          if \<not> isSpeaking s \<and> interviewStage s \<noteq> processing \<and> interviewStage s \<noteq> finished
          then speakText (nextQuestionText q) lang (q_theme q) True s
          else s)"

text \<open>\<^verbatim>\<open>getVoiceButtonProps\<close>: what a press of the voice button does, if it is enabled.\<close>

definition voiceButton :: "recognition_env \<Rightarrow> string option \<Rightarrow> screen \<Rightarrow> screen" where
  "voiceButton env mic s =
     (let isGlobalInteractionDisabled =
            (isSpeaking s \<or> interviewStage s = processing \<or> voiceInputStage s = transcribing)
      in if interviewStage s = finished then s
         else case voiceInputStage s of
                recording \<Rightarrow> if isSpeaking s \<or> interviewStage s = processing then s else stopListening s
              | transcribing \<Rightarrow> s
              | _ \<Rightarrow> if isGlobalInteractionDisabled \<or> isListening s then s
                     else startListening env mic s)"

subsection \<open>Effects\<close>

text \<open>
  The second effect runs after a render in which \<^verbatim>\<open>currentAIQuestion\<close> or
  \<^verbatim>\<open>interviewStage\<close> changed, and speaks the question in \<^verbatim>\<open>'asking'\<close> and
  \<^verbatim>\<open>'concluding'\<close>. \<^verbatim>\<open>setCurrentAIQuestion\<close> is called with a fresh object, so
  \<open>questionChanged\<close> is told by the caller. What the effect sets may change the stage
  again and run it once more; a third run never happens (\<open>speakEffect_settled\<close> below).
\<close>

definition speakEffect :: "LanguageCode \<Rightarrow> bool \<Rightarrow> InterviewStage \<Rightarrow> screen \<Rightarrow> screen" where
  "speakEffect lang questionChanged prevStage s =
     (if questionChanged \<or> interviewStage s \<noteq> prevStage then
        (case currentAIQuestion s of
           None \<Rightarrow> s
         | Some q \<Rightarrow>
             if interviewStage s = asking \<or> interviewStage s = concluding
             then speakText (nextQuestionText q) lang (q_theme q) False s
             else s)
      else s)"

definition renderEffects :: "LanguageCode \<Rightarrow> bool \<Rightarrow> InterviewStage \<Rightarrow> screen \<Rightarrow> screen" where
  "renderEffects lang questionChanged prevStage s =
     speakEffect lang False (interviewStage s) (speakEffect lang questionChanged prevStage s)"

subsection \<open>The session as a transition system\<close>

record InterviewScreenProps =
  researchPlan :: ResearchPlan
  selectedLanguage :: LanguageCode

text \<open>
  What can happen to a mounted screen. Time is not modelled: the expiry of a timer and the
  completion of an awaited call are events like the others. \<open>InputChanged\<close> is a change of
  the input buffer, by typing or by a result of the live recognition. \<open>Submit\<close> and \<open>CompleteInterview\<close> are
  the operations \<^verbatim>\<open>handleSubmitResponse\<close> and \<^verbatim>\<open>handleCompleteInterview\<close>, with the
  guards they check themselves. The other user events go through the controls above.
\<close>

datatype event =
    InputChanged string
  | Submit
  | DebounceElapsed
  | QuestionGenerated generation_outcome
  | Replay
  | SynthesisResolved bool
  | SynthesisRejected string
  | PlayRejected string
  | AudioEnded
  | AudioErrored
  | SettleElapsed
  | CompleteInterview
  | Cancel
  | VoiceButton recognition_env "string option"
  | RecognitionError string "string option"
  | RecognitionEnd
  | RecorderStopped nat
  | TranscriptionDone stt_backend

fun handle :: "InterviewScreenProps \<Rightarrow> event \<Rightarrow> screen \<Rightarrow> screen" where
  "handle p (InputChanged t) s = s \<lparr> currentUserResponse := t \<rparr>"
| "handle p Submit s = handleSubmitResponse s"
| "handle p DebounceElapsed s = debounceElapsed s"
| "handle p (QuestionGenerated outcome) s =
     (case pendingRequest s of
        None \<Rightarrow> s
      | Some sent \<Rightarrow>
          questionReceived
            (generateFollowUpQuestion (researchPlan p) sent (selectedLanguage p) outcome) s)"
| "handle p Replay s = replayQuestion (selectedLanguage p) s"
| "handle p (SynthesisResolved hasAudio) s = synthesisResolved hasAudio s"
| "handle p (SynthesisRejected msg) s = speechCaught Synthesizing msg s"
| "handle p (PlayRejected msg) s = speechCaught Playing msg s"
| "handle p AudioEnded s = audioEnded s"
| "handle p AudioErrored s = audioErrored s"
| "handle p SettleElapsed s = settleElapsed s"
| "handle p CompleteInterview s = handleCompleteInterview s"
| "handle p Cancel s = s \<lparr> cancelled := True \<rparr>"
| "handle p (VoiceButton env mic) s = voiceButton env mic s"
| "handle p (RecognitionError ev mic) s = recognitionError ev mic s"
| "handle p RecognitionEnd s = recognitionEnd s"
| "handle p (RecorderStopped blobSize) s = recorderStopped blobSize s"
| "handle p (TranscriptionDone backend) s = transcriptionDone (selectedLanguage p) backend s"

fun setsQuestion :: "event \<Rightarrow> screen \<Rightarrow> bool" where
  "setsQuestion (QuestionGenerated outcome) s = (pendingRequest s \<noteq> None)"
| "setsQuestion e s = False"

text \<open>
  Once the transcript is handed over or the interview is cancelled, the parent leaves the
  interview step and the screen is unmounted: nothing changes its state any more.
\<close>

definition step :: "InterviewScreenProps \<Rightarrow> event \<Rightarrow> screen \<Rightarrow> screen" where
  "step p e s =
     (if completed s \<noteq> [] \<or> cancelled s then s
      else renderEffects (selectedLanguage p) (setsQuestion e s) (interviewStage s) (handle p e s))"

fun run :: "InterviewScreenProps \<Rightarrow> event list \<Rightarrow> screen \<Rightarrow> screen" where
  "run p [] s = s"
| "run p (e # es) s = run p es (step p e s)"

text \<open>The first effect, at mount: the first question is fetched with no answer.\<close>

definition mount :: "screen \<Rightarrow> screen" where
  "mount s =
     (if interviewStage s = initial \<and> transcript s = []
      then fetchAndProcessNextQuestion None None (transcript s) (isFetchingQuestion s) s
      else s)"

definition init :: screen where
  "init = mount pristine"

definition session :: "InterviewScreenProps \<Rightarrow> event list \<Rightarrow> screen" where
  "session p es = run p es init"

section \<open>Properties: definitions\<close>

subsection \<open>The next planned question, in the words of the specification\<close>

text \<open>The questions of the plan in declared order, each with the theme it stands under.\<close>

definition plannedInOrder :: "ResearchPlan \<Rightarrow> (string \<times> string) list" where
  "plannedInOrder plan =
     concat (map (\<lambda>k. map (\<lambda>q. (theme k, q)) (questions k)) (keyQuestionnaire plan))"

text \<open>The texts of the AGENT turns of a transcript.\<close>

fun agentTurnTexts :: "InterviewTranscriptItem list \<Rightarrow> string list" where
  "agentTurnTexts [] = []"
| "agentTurnTexts (item # rest) =
     (case question item of
        Some q \<Rightarrow> if speaker item = AI then q # agentTurnTexts rest else agentTurnTexts rest
      | None \<Rightarrow> agentTurnTexts rest)"

text \<open>
  The first planned question whose exact text is absent from the AGENT turns; and the same
  with the empty text never counted as asked.
\<close>

definition spec_nextPlannedQuestion ::
  "ResearchPlan \<Rightarrow> InterviewTranscriptItem list \<Rightarrow> (string \<times> string) option" where
  "spec_nextPlannedQuestion plan t =
     find (\<lambda>(th, q). q \<notin> set (agentTurnTexts t)) (plannedInOrder plan)"

definition spec_nextPlannedQuestion_nonempty ::
  "ResearchPlan \<Rightarrow> InterviewTranscriptItem list \<Rightarrow> (string \<times> string) option" where
  "spec_nextPlannedQuestion_nonempty plan t =
     find (\<lambda>(th, q). q \<notin> set (filter (\<lambda>x. x \<noteq> []) (agentTurnTexts t))) (plannedInOrder plan)"

subsection \<open>Example inputs\<close>

definition onboardingPlan :: ResearchPlan where
  "onboardingPlan =
     \<lparr> keyQuestionnaire = [\<lparr> theme = ''Onboarding'', questions = [''How did you find our app?''] \<rparr>] \<rparr>"

definition onboardingProps :: InterviewScreenProps where
  "onboardingProps = \<lparr> researchPlan = onboardingPlan, selectedLanguage = en_US \<rparr>"

definition firstQuestion :: AIQuestionResponse where
  "firstQuestion =
     \<lparr> nextQuestionText = ''How did you find our app?'', q_theme = ''Onboarding'',
       q_isProbing = False, isEndOfInterview = False \<rparr>"

definition onboardingAnswered :: "InterviewTranscriptItem list" where
  "onboardingAnswered = [aiTurn firstQuestion, userTurn ''Via a friend'' (Some ''Onboarding'')]"

definition emptyEndReply :: AIQuestionResponse where
  "emptyEndReply =
     \<lparr> nextQuestionText = [], q_theme = ''Probing'', q_isProbing = True, isEndOfInterview = True \<rparr>"

definition forcedConclusion :: AIQuestionResponse where
  "forcedConclusion =
     \<lparr> nextQuestionText = forcedClosingRemark, q_theme = Conclusion, q_isProbing = False,
       isEndOfInterview = True \<rparr>"

definition emptyQuestionPlan :: ResearchPlan where
  "emptyQuestionPlan = \<lparr> keyQuestionnaire = [\<lparr> theme = ''Usage'', questions = [''''] \<rparr>] \<rparr>"

definition emptyQuestionAsked :: "InterviewTranscriptItem list" where
  "emptyQuestionAsked =
     [\<lparr> speaker = AI, turn_theme = Some ''Usage'', question = Some [], answer = None,
        isProbing = Some False \<rparr>]"


definition silentRecording :: stt_backend where
  "silentRecording = OkJson (Some \<lparr> transcript_field = None \<rparr>)"

definition stoppingRecorder :: screen where
  "stoppingRecorder = pristine \<lparr> interviewStage := listening, isListening := True,
      voiceInputStage := recording, mediaRecorder := rec_stopping \<rparr>"

subsection \<open>The shape of a transcript\<close>




subsection \<open>An invariant of the session\<close>

text \<open>
  The cells that decide what is appended to the transcript, and the invariant that ties
  them together: a request is pending exactly while \<open>isFetchingQuestion\<close> is set; with no
  request pending the transcript ends with the current question; a pending request was
  given the transcript as it stands, which then ends with an answer or with a concluding
  question; and a pending debounce timer either captured a fetch in progress (and will do
  nothing) or captured the transcript and the question as they still are.
\<close>

definition sameCore :: "screen \<Rightarrow> screen \<Rightarrow> bool" where
  "sameCore s s' \<longleftrightarrow>
     transcript s' = transcript s \<and> pendingRequest s' = pendingRequest s
     \<and> isFetchingQuestion s' = isFetchingQuestion s \<and> submitDebounce s' = submitDebounce s
     \<and> currentAIQuestion s' = currentAIQuestion s"



subsection \<open>More example inputs\<close>

definition closingReply :: AIQuestionResponse where
  "closingReply =
     \<lparr> nextQuestionText = ''Thanks, that is all.'', q_theme = ''Conclusion'',
       q_isProbing = False, isEndOfInterview = True \<rparr>"

definition farewellReply :: AIQuestionResponse where
  "farewellReply =
     \<lparr> nextQuestionText = ''Goodbye.'', q_theme = ''Conclusion'',
       q_isProbing = False, isEndOfInterview = True \<rparr>"







definition listeningForFirst :: screen where
  "listeningForFirst =
     session onboardingProps
       [QuestionGenerated (ResponseText (Some firstQuestion)), SynthesisResolved True, AudioEnded,
        InputChanged ''Via a friend'']"


text \<open>
  The ways one speech operation runs to its end: audio plays and ends, audio plays and
  fails, \<open>play()\<close> is refused, the synthesis yields nothing, the synthesis fails.
\<close>

definition speechCompletions :: "string \<Rightarrow> event list list" where
  "speechCompletions msg =
     [ [SynthesisResolved True, AudioEnded],
       [SynthesisResolved True, AudioErrored],
       [SynthesisResolved True, PlayRejected msg],
       [SynthesisResolved False],
       [SynthesisRejected msg] ]"

definition replayRace :: "event list" where
  "replayRace =
     [QuestionGenerated (ResponseText (Some firstQuestion)), SynthesisResolved True, AudioEnded,
      InputChanged ''Via a friend'', Submit, Replay, DebounceElapsed,
      QuestionGenerated (ResponseText (Some closingReply)), SynthesisResolved True, AudioEnded]"

section \<open>The next planned question\<close>

lemma asked_are_nonempty_agent_texts:
  "askedQuestionsInTranscript t = filter (\<lambda>x. x \<noteq> []) (agentTurnTexts t)"
  by (induction t) (auto split: option.splits)

lemma scanQuestions_find: "scanQuestions asked qs = find (\<lambda>q. q \<notin> set asked) qs"
  by (induction qs) auto

lemma find_under_theme:
  "find (\<lambda>(th, q). P q) (map (\<lambda>q. (t, q)) qs) = map_option (\<lambda>q. (t, q)) (find P qs)"
  by (induction qs) auto

lemma find_append_first:
  "find P (xs @ ys) = (case find P xs of Some x \<Rightarrow> Some x | None \<Rightarrow> find P ys)"
  by (induction xs) auto

lemma scanThemes_find:
  "scanThemes asked ks =
     find (\<lambda>(th, q). q \<notin> set asked) (concat (map (\<lambda>k. map (\<lambda>q. (theme k, q)) (questions k)) ks))"
  by (induction ks)
     (auto simp: find_append_first find_under_theme scanQuestions_find split: option.splits)

text \<open>
  C4, as stated: the next planned question is the first question of the plan, in declared
  order, whose exact text does not appear among the AGENT turns. This fails for a planned
  question that is the empty string: the code drops empty texts from the asked list, so
  such a question is found unasked although an AGENT turn carries exactly its text.
\<close>

theorem empty_question_never_counts_as_asked:
  "nextPlannedQuestion emptyQuestionPlan emptyQuestionAsked = Some (''Usage'', [])
   \<and> spec_nextPlannedQuestion emptyQuestionPlan emptyQuestionAsked = None"
  by (simp add: nextPlannedQuestion_def spec_nextPlannedQuestion_def plannedInOrder_def
      emptyQuestionPlan_def emptyQuestionAsked_def)

text \<open>
  C4, amended: for every plan and every transcript, the next planned question is the first
  question, scanning themes and their questions in declared order, whose exact text does
  not appear among the non-empty texts of the AGENT turns; there is none exactly when the
  plan is exhausted in this sense.
\<close>

theorem nextPlannedQuestion_first_unasked:
  "nextPlannedQuestion plan t = spec_nextPlannedQuestion_nonempty plan t"
  by (simp add: nextPlannedQuestion_def spec_nextPlannedQuestion_nonempty_def plannedInOrder_def
      scanThemes_find asked_are_nonempty_agent_texts)

theorem nextPlannedQuestion_first_unasked_witness:
  "nextPlannedQuestion onboardingPlan [] = Some (''Onboarding'', ''How did you find our app?'')
   \<and> nextPlannedQuestion onboardingPlan onboardingAnswered = None"
  using nextPlannedQuestion_first_unasked [of onboardingPlan "[]"]
    nextPlannedQuestion_first_unasked [of onboardingPlan onboardingAnswered]
  by (simp add: spec_nextPlannedQuestion_nonempty_def plannedInOrder_def onboardingPlan_def
      onboardingAnswered_def aiTurn_def userTurn_def firstQuestion_def)

section \<open>Validation of the candidate\<close>

lemma forcedClosingRemark_nonempty: "forcedClosingRemark \<noteq> []"
  by (simp add: forcedClosingRemark_def)

lemma fillerQuestion_nonempty: "fillerQuestion \<noteq> []"
  by (simp add: fillerQuestion_def)

lemma unparsedFallback_generic:
  "includes_str (nextQuestionText (unparsedFallback lang None)) genericPhrase"
  by (cases lang) (simp_all add: unparsedFallback_def genericPhrase_def)

lemma exhausted_flags:
  "isEndOfInterview (validateResponse lang None parsed)
   \<and> q_theme (validateResponse lang None parsed) = Conclusion
   \<and> \<not> q_isProbing (validateResponse lang None parsed)"
  by (simp add: validateResponse_def concludeOrRepair_def neverEmpty_def split: option.splits)

lemma exhausted_text_parsed:
  "nextQuestionText (validateResponse lang None (Some p)) =
     (if nextQuestionText p = [] \<or> includes_str (nextQuestionText p) genericPhrase
      then forcedClosingRemark else nextQuestionText p)"
  by (simp add: validateResponse_def concludeOrRepair_def neverEmpty_def forcedClosingRemark_nonempty)

lemma exhausted_text_unparsed:
  "nextQuestionText (validateResponse lang None None) = forcedClosingRemark"
  using unparsedFallback_generic [of lang]
  by (simp add: validateResponse_def concludeOrRepair_def neverEmpty_def forcedClosingRemark_nonempty)

text \<open>
  C5: when the plan is exhausted, the candidate returned for a service response has
  \<open>isEndOfInterview = true\<close>, theme \<open>"Conclusion"\<close> and \<open>isProbing = false\<close>; its text is the
  fixed closing remark if the returned text was empty or generic (it contains
  \<open>"Is there anything else you'd like to share"\<close>), and the returned text otherwise. A
  response that could not be parsed gets the fixed closing remark as well.
\<close>

theorem exhausted_plan_forces_conclusion:
  assumes "nextPlannedQuestion plan t = None"
      and "generateFollowUpQuestion plan t lang (ResponseText parsed) = Inr (Some r)"
  shows "isEndOfInterview r \<and> q_theme r = Conclusion \<and> \<not> q_isProbing r
         \<and> (case parsed of
              Some p \<Rightarrow> nextQuestionText r =
                 (if nextQuestionText p = [] \<or> includes_str (nextQuestionText p) genericPhrase
                  then forcedClosingRemark else nextQuestionText p)
            | None \<Rightarrow> nextQuestionText r = forcedClosingRemark)"
proof -
  from assms have r: "r = validateResponse lang None parsed"
    by (simp add: generateFollowUpQuestion_def)
  show ?thesis
    unfolding r using exhausted_flags [of lang parsed]
    by (cases parsed) (simp_all add: exhausted_text_parsed exhausted_text_unparsed)
qed

theorem exhausted_plan_forces_conclusion_witness:
  "nextPlannedQuestion onboardingPlan onboardingAnswered = None
   \<and> generateFollowUpQuestion onboardingPlan onboardingAnswered en_US (ResponseText (Some emptyEndReply))
       = Inr (Some forcedConclusion)
   \<and> isEndOfInterview forcedConclusion \<and> q_theme forcedConclusion = Conclusion
   \<and> \<not> q_isProbing forcedConclusion \<and> nextQuestionText forcedConclusion = forcedClosingRemark"
proof -
  have h1: "nextPlannedQuestion onboardingPlan onboardingAnswered = None"
    by (simp add: nextPlannedQuestion_def onboardingPlan_def onboardingAnswered_def aiTurn_def
        userTurn_def firstQuestion_def)
  have h2: "generateFollowUpQuestion onboardingPlan onboardingAnswered en_US
              (ResponseText (Some emptyEndReply)) = Inr (Some forcedConclusion)"
    by (simp add: generateFollowUpQuestion_def h1 validateResponse_def concludeOrRepair_def
        neverEmpty_def emptyEndReply_def forcedConclusion_def forcedClosingRemark_nonempty)
  from exhausted_plan_forces_conclusion [OF h1 h2] h1 h2 show ?thesis
    by (simp add: emptyEndReply_def)
qed


text \<open>The candidate's text is never empty, whatever the response.\<close>

lemma validated_text_nonempty: "nextQuestionText (validateResponse lang npq parsed) \<noteq> []"
  by (simp add: validateResponse_def neverEmpty_def fillerQuestion_nonempty)




section \<open>Speech capture, record and upload\<close>

text \<open>
  C10: when the transcription backend answers successfully with a JSON body that has no
  \<open>transcript\<close> field, \<open>transcribeAudio\<close> returns the empty string instead of failing; the
  recorder's stop handler, for a recording that is not empty, then stores the empty string
  as the participant's input, sets the capture status to \<open>readyToSubmit\<close> and clears the
  capture error.
\<close>

theorem missing_transcript_ready_to_submit:
  assumes "mediaRecorder s = rec_stopping" and "0 < blobSize"
  shows "transcribeAudio (Some blobSize) lang (OkJson (Some \<lparr> transcript_field = None \<rparr>)) = Inr []
         \<and> currentUserResponse
              (transcriptionDone lang (OkJson (Some \<lparr> transcript_field = None \<rparr>))
                 (recorderStopped blobSize s)) = []
         \<and> voiceInputStage
              (transcriptionDone lang (OkJson (Some \<lparr> transcript_field = None \<rparr>))
                 (recorderStopped blobSize s)) = readyToSubmit
         \<and> sttError
              (transcriptionDone lang (OkJson (Some \<lparr> transcript_field = None \<rparr>))
                 (recorderStopped blobSize s)) = None"
  using assms
  by (simp add: transcribeAudio_def transcriptionDone_def recorderStopped_def Let_def)

theorem missing_transcript_ready_to_submit_witness:
  "mediaRecorder stoppingRecorder = rec_stopping \<and> (0::nat) < 2048
   \<and> transcribeAudio (Some 2048) en_US silentRecording = Inr []
   \<and> currentUserResponse (transcriptionDone en_US silentRecording (recorderStopped 2048 stoppingRecorder)) = []
   \<and> voiceInputStage (transcriptionDone en_US silentRecording (recorderStopped 2048 stoppingRecorder)) = readyToSubmit
   \<and> sttError (transcriptionDone en_US silentRecording (recorderStopped 2048 stoppingRecorder)) = None"
proof -
  have h1: "mediaRecorder stoppingRecorder = rec_stopping"
    by (simp add: stoppingRecorder_def pristine_def)
  have h2: "(0::nat) < 2048" by simp
  from missing_transcript_ready_to_submit [OF h1 h2, of en_US] h1 show ?thesis
    by (simp add: silentRecording_def)
qed

section \<open>The transcript of a session\<close>

lemmas service_defs =
  generateFollowUpQuestion_def nextPlannedQuestion_def validateResponse_def concludeOrRepair_def
  neverEmpty_def unparsedFallback_def callErrorFallback_def

lemmas screen_defs =
  session_def init_def mount_def pristine_def step_def renderEffects_def speakEffect_def
  speakText_def stageAfterSpeech_def handleSpeechEnd_def synthesisResolved_def speechCaught_def
  audioEnded_def audioErrored_def fetchAndProcessNextQuestion_def stopListening_def
  updatedTranscriptWithUserAnswer_def questionReceived_def emergencyExit_def
  handleSubmitResponse_def debounceElapsed_def handleCompleteInterview_def settleElapsed_def
  replayQuestion_def trim_def isWhiteSpace_def Conclusion_def




lemma sameCore_refl: "sameCore s s" by (simp add: sameCore_def)
lemma sameCore_trans: "sameCore s s' \<Longrightarrow> sameCore s' s'' \<Longrightarrow> sameCore s s''" by (simp add: sameCore_def)

lemma sameCore_speakText: "sameCore s (speakText txt lang th force s)"
  by (simp add: sameCore_def speakText_def)

lemma sameCore_speakEffect: "sameCore s (speakEffect lang ch prev s)"
  by (simp add: speakEffect_def sameCore_speakText sameCore_refl split: option.splits)

lemma sameCore_renderEffects: "sameCore s (renderEffects lang ch prev s)"
  unfolding renderEffects_def
  by (rule sameCore_trans[OF sameCore_speakEffect sameCore_speakEffect])











lemma sameCore_other:
  "sameCore s (s \<lparr> currentUserResponse := t \<rparr>)"
  "sameCore s (replayQuestion lang s)"
  "sameCore s (synthesisResolved b s)"
  "sameCore s (speechCaught ph msg s)"
  "sameCore s (audioEnded s)"
  "sameCore s (audioErrored s)"
  "sameCore s (settleElapsed s)"
  "sameCore s (handleCompleteInterview s)"
  "sameCore s (s \<lparr> cancelled := True \<rparr>)"
  "sameCore s (voiceButton env mic s)"
  "sameCore s (recognitionError ev mic s)"
  "sameCore s (recognitionEnd s)"
  "sameCore s (recorderStopped n s)"
  "sameCore s (transcriptionDone lang backend s)"
  by (simp_all add: sameCore_def replayQuestion_def speakText_def synthesisResolved_def speechCaught_def
      audioEnded_def audioErrored_def handleSpeechEnd_def settleElapsed_def handleCompleteInterview_def
      voiceButton_def startListening_def stopListening_def startFallbackRecording_def recognitionError_def
      recognitionEnd_def recorderStopped_def transcriptionDone_def Let_def
      split: option.splits VoiceInputStage.splits recognition_env.splits sum.splits)

lemma sameCore_handle:
  assumes "e \<noteq> Submit" "e \<noteq> DebounceElapsed" "\<forall>outcome. e \<noteq> QuestionGenerated outcome"
  shows "sameCore s (handle p e s)"
  using assms by (cases e) (simp_all add: sameCore_other)












lemmas example_defs =
  onboardingProps_def onboardingPlan_def firstQuestion_def closingReply_def farewellReply_def
  aiTurn_def userTurn_def



lemma alive_step:
  "completed s = [] \<Longrightarrow> \<not> cancelled s \<Longrightarrow>
     step p e s = renderEffects (selectedLanguage p) (setsQuestion e s) (interviewStage s) (handle p e s)"
  by (simp add: step_def)

lemma renderEffects_idle:
  "interviewStage s = prev \<Longrightarrow> renderEffects lang False prev s = s"
  by (simp add: renderEffects_def speakEffect_def)



section \<open>Submission\<close>









lemma listeningForFirst_facts:
  "completed listeningForFirst = []" "\<not> cancelled listeningForFirst"
  "\<not> isSpeaking listeningForFirst" "\<not> isListening listeningForFirst"
  "interviewStage listeningForFirst = listening"
  "currentUserResponse listeningForFirst = ''Via a friend''"
  "submitDebounce listeningForFirst = None" "\<not> isFetchingQuestion listeningForFirst"
  "currentAIQuestion listeningForFirst = Some firstQuestion"
  "transcript listeningForFirst = [aiTurn firstQuestion]"
  by (simp_all add: listeningForFirst_def screen_defs service_defs example_defs Let_def)







section \<open>Speech output and replay\<close>

text \<open>After the two runs of the speaking effect in \<open>renderEffects\<close> a further run changes nothing.\<close>

lemma speakEffect_settled:
  "speakEffect lang False (interviewStage (speakEffect lang ch prev s)) (renderEffects lang ch prev s)
     = renderEffects lang ch prev s"
  by (simp add: renderEffects_def speakEffect_def speakText_def stageAfterSpeech_def
      split: option.splits)

text \<open>
  C9, as stated: a replay never changes the interview stage. This fails. The participant
  submits an answer and replays the question within the debounce window; the next question
  (of theme \<open>"Conclusion"\<close>) arrives while the replay is still playing and is not spoken;
  the replay ends and sets the stage to \<open>listening\<close>. A replay requested now (nothing
  spoken, processed or captured) ends with the stage at \<open>concluding\<close>.
\<close>

theorem replay_changes_stage:
  "interviewStage (session onboardingProps replayRace) = listening
   \<and> \<not> isSpeaking (session onboardingProps replayRace)
   \<and> \<not> isListening (session onboardingProps replayRace)
   \<and> currentAIQuestion (session onboardingProps replayRace) = Some closingReply
   \<and> isSpeaking (session onboardingProps (replayRace @ [Replay]))
   \<and> interviewStage (session onboardingProps (replayRace @ [Replay, SynthesisResolved True, AudioEnded]))
       = concluding
   \<and> transcript (session onboardingProps (replayRace @ [Replay, SynthesisResolved True, AudioEnded]))
       = transcript (session onboardingProps replayRace)"
  by (simp add: replayRace_def screen_defs service_defs example_defs genericPhrase_def Let_def)

lemma speakEffect_settled_stage:
  assumes "currentAIQuestion s = Some q" "interviewStage s = stageAfterSpeech (q_theme q)"
  shows "interviewStage (speakEffect lang ch prev s) = stageAfterSpeech (q_theme q)"
    and "currentAIQuestion (speakEffect lang ch prev s) = Some q"
  using assms by (simp_all add: speakEffect_def speakText_def)

lemma renderEffects_settled_stage:
  assumes "currentAIQuestion s = Some q" "interviewStage s = stageAfterSpeech (q_theme q)"
  shows "interviewStage (renderEffects lang ch prev s) = stageAfterSpeech (q_theme q)"
  unfolding renderEffects_def
  by (rule speakEffect_settled_stage(1)
        [OF speakEffect_settled_stage(2) [OF assms] speakEffect_settled_stage(1) [OF assms]])

lemma replay_starts:
  assumes "completed s = []" "\<not> cancelled s" "currentAIQuestion s = Some q"
      and "\<not> isSpeaking s" "interviewStage s \<noteq> processing" "interviewStage s \<noteq> finished"
      and "trim (nextQuestionText q) \<noteq> []"
  shows "step p Replay s =
           s \<lparr> audioRef := False, lastSpokenQuestionText := Some (nextQuestionText q),
               isSpeaking := True, displayedQuestionText := [],
               speakingPromise :=
                 Some \<lparr> sp_text = nextQuestionText q, sp_theme = q_theme q, sp_phase = Synthesizing \<rparr> \<rparr>"
proof -
  have h: "replayQuestion (selectedLanguage p) s =
           s \<lparr> audioRef := False, lastSpokenQuestionText := Some (nextQuestionText q),
               isSpeaking := True, displayedQuestionText := [],
               speakingPromise :=
                 Some \<lparr> sp_text = nextQuestionText q, sp_theme = q_theme q, sp_phase = Synthesizing \<rparr> \<rparr>"
    using assms by (simp add: replayQuestion_def speakText_def)
  show ?thesis
    using assms(1,2) by (simp add: alive_step h renderEffects_idle)
qed

lemma replay_blank:
  assumes "completed s = []" "\<not> cancelled s" "currentAIQuestion s = Some q"
      and "\<not> isSpeaking s" "interviewStage s \<noteq> processing" "interviewStage s \<noteq> finished"
      and "trim (nextQuestionText q) = []"
  shows "interviewStage (step p Replay s) = stageAfterSpeech (q_theme q)"
proof -
  have h: "interviewStage (replayQuestion (selectedLanguage p) s) = stageAfterSpeech (q_theme q)"
          "currentAIQuestion (replayQuestion (selectedLanguage p) s) = Some q"
    using assms by (simp_all add: replayQuestion_def speakText_def)
  show ?thesis
    using assms(1,2) by (simp add: alive_step renderEffects_settled_stage [OF h(2,1)])
qed

lemma transcript_step_speech:
  assumes "e = Replay \<or> e = SynthesisResolved b \<or> e = SynthesisRejected msg \<or> e = PlayRejected msg
           \<or> e = AudioEnded \<or> e = AudioErrored"
  shows "transcript (step p e s) = transcript s"
    and "completed (step p e s) = completed s"
    and "cancelled (step p e s) = cancelled s"
    and "currentAIQuestion (step p e s) = currentAIQuestion s"
proof -
  from assms have o: "e \<noteq> Submit" "e \<noteq> DebounceElapsed" "\<forall>outcome. e \<noteq> QuestionGenerated outcome"
    by auto
  have c: "sameCore s (handle p e s)" using o by (rule sameCore_handle)
  have r: "sameCore (handle p e s) (renderEffects (selectedLanguage p) (setsQuestion e s) (interviewStage s) (handle p e s))"
    by (rule sameCore_renderEffects)
  have k: "completed (renderEffects lang ch prev x) = completed x"
          "cancelled (renderEffects lang ch prev x) = cancelled x" for lang ch prev x
    by (simp_all add: renderEffects_def speakEffect_def speakText_def split: option.splits)
  have h: "completed (handle p e s) = completed s" "cancelled (handle p e s) = cancelled s"
    using assms
    by (auto simp: replayQuestion_def speakText_def synthesisResolved_def speechCaught_def
        audioEnded_def audioErrored_def handleSpeechEnd_def split: option.splits if_splits)
  show "transcript (step p e s) = transcript s" "currentAIQuestion (step p e s) = currentAIQuestion s"
    using c r by (simp_all add: step_def sameCore_def)
  show "completed (step p e s) = completed s" "cancelled (step p e s) = cancelled s"
    using h by (simp_all add: step_def k)
qed

lemma speech_ends:
  assumes "completed s = []" "\<not> cancelled s" "currentAIQuestion s = Some q"
      and "speakingPromise s = Some op" "sp_theme op = q_theme q"
      and "sp_phase op = Synthesizing \<and> (e = SynthesisResolved False \<or> e = SynthesisRejected msg)
           \<or> sp_phase op = Playing \<and> (e = AudioEnded \<or> e = AudioErrored \<or> e = PlayRejected msg)"
  shows "interviewStage (step p e s) = stageAfterSpeech (q_theme q)"
proof -
  have h: "interviewStage (handle p e s) = stageAfterSpeech (q_theme q)"
          "currentAIQuestion (handle p e s) = Some q"
    using assms(3-6)
    by (auto simp: synthesisResolved_def speechCaught_def audioEnded_def audioErrored_def
        handleSpeechEnd_def)
  show ?thesis
    using assms(1,2) by (simp add: alive_step renderEffects_settled_stage [OF h(2,1)])
qed

lemma synthesis_plays:
  assumes "completed s = []" "\<not> cancelled s"
      and "speakingPromise s = Some op" "sp_phase op = Synthesizing"
  shows "step p (SynthesisResolved True) s =
           s \<lparr> audioRef := True, speakingPromise := Some (op \<lparr> sp_phase := Playing \<rparr>) \<rparr>"
  using assms by (simp add: alive_step synthesisResolved_def renderEffects_idle)

lemma replay_blank_promise:
  assumes "completed s = []" "\<not> cancelled s" "currentAIQuestion s = Some q"
      and "\<not> isSpeaking s" "interviewStage s \<noteq> processing" "interviewStage s \<noteq> finished"
      and "trim (nextQuestionText q) = []"
  shows "speakingPromise (step p Replay s) = None"
  using assms
  by (simp add: alive_step replayQuestion_def renderEffects_def speakEffect_def speakText_def)

lemma no_speech_noop:
  assumes "completed s = []" "\<not> cancelled s" "speakingPromise s = None"
      and "e = SynthesisResolved b \<or> e = SynthesisRejected msg \<or> e = PlayRejected msg
           \<or> e = AudioEnded \<or> e = AudioErrored"
  shows "step p e s = s"
  using assms
  by (auto simp: alive_step synthesisResolved_def speechCaught_def audioEnded_def audioErrored_def
      renderEffects_idle)

lemma completion_cases:
  assumes "completion \<in> set (speechCompletions msg)"
  obtains (direct) e where "completion = [e]" "e = SynthesisResolved False \<or> e = SynthesisRejected msg"
  | (played) e where "completion = [SynthesisResolved True, e]"
      "e = AudioEnded \<or> e = AudioErrored \<or> e = PlayRejected msg"
  using assms by (auto simp: speechCompletions_def)

text \<open>
  C9, amended: a replay of the current question (offered when nothing is being spoken and
  the stage is neither \<open>processing\<close> nor \<open>finished\<close>) never changes the transcript. While it
  runs the stage stays as it is; when it completes, naturally or on error, it sets the
  stage to \<open>listening\<close> if the theme of the question is not \<open>"Conclusion"\<close> and to
  \<open>concluding\<close> if it is, which is the stage the replay was requested in whenever that
  stage is the one the question's own speech output had led to.
\<close>

theorem replay_keeps_transcript_sets_stage_by_theme:
  assumes "completed s = []" and "\<not> cancelled s"
      and "currentAIQuestion s = Some q"
      and "\<not> isSpeaking s" and "interviewStage s \<noteq> processing" and "interviewStage s \<noteq> finished"
      and "completion \<in> set (speechCompletions msg)"
  shows "transcript (run p (Replay # completion) s) = transcript s
         \<and> interviewStage (run p (Replay # completion) s) = stageAfterSpeech (q_theme q)
         \<and> (trim (nextQuestionText q) \<noteq> [] \<longrightarrow> interviewStage (step p Replay s) = interviewStage s)"
proof -
  let ?s1 = "step p Replay s"
  have r: "Replay = Replay \<or> Replay = SynthesisResolved True \<or> Replay = SynthesisRejected msg
           \<or> Replay = PlayRejected msg \<or> Replay = AudioEnded \<or> Replay = AudioErrored"
    by simp
  have a1: "completed ?s1 = []" "\<not> cancelled ?s1" "currentAIQuestion ?s1 = Some q"
           "transcript ?s1 = transcript s"
    using assms(1-3) by (simp_all add: transcript_step_speech [OF r])
  have during: "trim (nextQuestionText q) \<noteq> [] \<longrightarrow> interviewStage ?s1 = interviewStage s"
    using replay_starts [OF assms(1-6), of p] by auto
  from assms(7) show ?thesis
  proof (cases rule: completion_cases)
    case (direct e)
    have fe: "e = Replay \<or> e = SynthesisResolved False \<or> e = SynthesisRejected msg
              \<or> e = PlayRejected msg \<or> e = AudioEnded \<or> e = AudioErrored"
      using direct(2) by auto
    have t: "transcript (step p e ?s1) = transcript s"
      using a1(4) by (simp add: transcript_step_speech(1) [OF fe])
    have st: "interviewStage (step p e ?s1) = stageAfterSpeech (q_theme q)"
    proof (cases "trim (nextQuestionText q) = []")
      case True
      have "step p e ?s1 = ?s1"
        using direct(2)
        by (intro no_speech_noop [OF a1(1,2) replay_blank_promise [OF assms(1-6) True]]) auto
      then show ?thesis by (simp add: replay_blank [OF assms(1-6) True])
    next
      case False
      let ?op = "\<lparr> sp_text = nextQuestionText q, sp_theme = q_theme q, sp_phase = Synthesizing \<rparr>"
      have p1: "speakingPromise ?s1 = Some ?op"
        by (simp add: replay_starts [OF assms(1-6) False])
      show ?thesis
        using direct(2) by (intro speech_ends [OF a1(1-3) p1]) auto
    qed
    from t st during show ?thesis by (simp add: direct(1))
  next
    case (played e)
    let ?s2 = "step p (SynthesisResolved True) ?s1"
    have fs: "SynthesisResolved True = Replay \<or> SynthesisResolved True = SynthesisResolved True
              \<or> SynthesisResolved True = SynthesisRejected msg \<or> SynthesisResolved True = PlayRejected msg
              \<or> SynthesisResolved True = AudioEnded \<or> SynthesisResolved True = AudioErrored"
      by simp
    have a2: "completed ?s2 = []" "\<not> cancelled ?s2" "currentAIQuestion ?s2 = Some q"
             "transcript ?s2 = transcript s"
      using a1 by (simp_all add: transcript_step_speech [OF fs])
    have fe: "e = Replay \<or> e = SynthesisResolved True \<or> e = SynthesisRejected msg
              \<or> e = PlayRejected msg \<or> e = AudioEnded \<or> e = AudioErrored"
      using played(2) by auto
    have t: "transcript (step p e ?s2) = transcript s"
      using a2(4) by (simp add: transcript_step_speech(1) [OF fe])
    have st: "interviewStage (step p e ?s2) = stageAfterSpeech (q_theme q)"
    proof (cases "trim (nextQuestionText q) = []")
      case True
      have n1: "speakingPromise ?s1 = None" by (rule replay_blank_promise [OF assms(1-6) True])
      have e1: "?s2 = ?s1" by (intro no_speech_noop [OF a1(1,2) n1]) auto
      have "step p e ?s1 = ?s1"
        using played(2) by (intro no_speech_noop [OF a1(1,2) n1]) auto
      then show ?thesis by (simp add: e1 replay_blank [OF assms(1-6) True])
    next
      case False
      let ?op = "\<lparr> sp_text = nextQuestionText q, sp_theme = q_theme q, sp_phase = Synthesizing \<rparr>"
      have p1: "speakingPromise ?s1 = Some ?op"
        by (simp add: replay_starts [OF assms(1-6) False])
      have p2: "speakingPromise ?s2 = Some (?op \<lparr> sp_phase := Playing \<rparr>)"
        by (simp add: synthesis_plays [OF a1(1,2) p1])
      show ?thesis
        using played(2) by (intro speech_ends [OF a2(1-3) p2]) auto
    qed
    from t st during show ?thesis by (simp add: played(1))
  qed
qed

theorem replay_keeps_transcript_sets_stage_by_theme_witness:
  "completed listeningForFirst = [] \<and> \<not> cancelled listeningForFirst
   \<and> currentAIQuestion listeningForFirst = Some firstQuestion
   \<and> \<not> isSpeaking listeningForFirst
   \<and> interviewStage listeningForFirst \<noteq> processing
   \<and> interviewStage listeningForFirst \<noteq> finished
   \<and> [SynthesisResolved True, AudioEnded] \<in> set (speechCompletions [])
   \<and> transcript (run onboardingProps [Replay, SynthesisResolved True, AudioEnded] listeningForFirst)
       = transcript listeningForFirst
   \<and> interviewStage (run onboardingProps [Replay, SynthesisResolved True, AudioEnded] listeningForFirst)
       = interviewStage listeningForFirst"
proof -
  note f = listeningForFirst_facts
  have st: "interviewStage listeningForFirst \<noteq> processing" "interviewStage listeningForFirst \<noteq> finished"
    by (simp_all add: f)
  have m: "[SynthesisResolved True, AudioEnded] \<in> set (speechCompletions [])"
    by (simp add: speechCompletions_def)
  have th: "stageAfterSpeech (q_theme firstQuestion) = listening"
    by (simp add: stageAfterSpeech_def firstQuestion_def Conclusion_def)
  from replay_keeps_transcript_sets_stage_by_theme [OF f(1,2,9,3) st m, of onboardingProps]
  show ?thesis
    by (simp add: f m th)
qed

section \<open>Failure of the question generation\<close>






end
